theory Spec2Isabelle
  imports Main
begin

section \<open>Errors\<close>

text \<open>
  The exceptions of \<^verbatim>\<open>result.py\<close> and \<^verbatim>\<open>task.py\<close>, as values. The two messages of
  \<^verbatim>\<open>InvalidHeuristicException\<close> are kept apart by their payload: the heuristic id that
  is not in the manifest, or the current and the new id when a heuristic is set twice.
  \<^verbatim>\<open>InvalidClassification\<close> is never a result: \<^verbatim>\<open>ResultSection.finalize\<close> catches it.
\<close>

datatype heuristic_error = NotInManifest int | SetTwice int int

datatype error =
    InvalidHeuristicException heuristic_error
  | ResultAggregationException
  | UnicodeDecodeError
  | FileNotFoundError
  | FileExistsError
  | NotADirectoryError
  | IsADirectoryError
  | ShutilError
  | TypeError

section \<open>Python values and dictionaries\<close>

text \<open>
  \<^verbatim>\<open>if x:\<close> on an \<^verbatim>\<open>Optional[str]\<close>: \<^verbatim>\<open>None\<close> and the empty string are false.
\<close>

fun truthy :: "string option \<Rightarrow> bool" where
  "truthy None = False"
| "truthy (Some s) = (s \<noteq> [])"

text \<open>
  A Python \<^verbatim>\<open>dict\<close> keeps its keys in insertion order, and that order reaches the
  output, so a dictionary is an association list. \<open>dict_get\<close> is \<^verbatim>\<open>d.get(k)\<close>,
  \<open>dict_set\<close> is \<^verbatim>\<open>d[k] = v\<close> (in place for a key that is there, at the end for a
  new one) and \<open>dict_setdefault\<close> is \<^verbatim>\<open>d.setdefault(k, v)\<close>.
\<close>

fun dict_get :: "('k \<times> 'v) list \<Rightarrow> 'k \<Rightarrow> 'v option" where
  "dict_get [] k = None"
| "dict_get ((k', v) # d) k = (if k' = k then Some v else dict_get d k)"

fun dict_set :: "('k \<times> 'v) list \<Rightarrow> 'k \<Rightarrow> 'v \<Rightarrow> ('k \<times> 'v) list" where
  "dict_set [] k v = [(k, v)]"
| "dict_set ((k', v') # d) k v = (if k' = k then (k, v) # d else (k', v') # dict_set d k v)"

definition dict_setdefault :: "('k \<times> 'v) list \<Rightarrow> 'k \<Rightarrow> 'v \<Rightarrow> ('k \<times> 'v) list" where
  "dict_setdefault d k v = (case dict_get d k of None \<Rightarrow> dict_set d k v | Some _ \<Rightarrow> d)"

text \<open>
  The two statements with which both \<^verbatim>\<open>Heuristic.__init__\<close> and \<^verbatim>\<open>add_signature_id\<close>
  count a signature. The \<open>None\<close> branch is the \<^verbatim>\<open>KeyError\<close> that \<^verbatim>\<open>setdefault\<close> rules out.
  \<^verbatim>\<open>
  self.signatures.setdefault(signature, 0)
  self.signatures[signature] += frequency
  \<close>
\<close>

definition dict_increment :: "('k \<times> int) list \<Rightarrow> 'k \<Rightarrow> int \<Rightarrow> ('k \<times> int) list" where
  "dict_increment d k n =
     (let m = dict_setdefault d k 0
      in case dict_get m k of Some c \<Rightarrow> dict_set m k (c + n) | None \<Rightarrow> m)"

section \<open>Heuristic\<close>

text \<open>
  An entry of \<^verbatim>\<open>HEUR_LIST\<close> (\<^verbatim>\<open>self.definition\<close>): the fields the class reads,
  \<^verbatim>\<open>score\<close>, \<^verbatim>\<open>attack_id\<close> and \<^verbatim>\<open>signature_score_map\<close>. \<^verbatim>\<open>HEUR_LIST\<close> itself
  (\<^verbatim>\<open>get_heuristics()\<close>) and \<^verbatim>\<open>attack_map\<close> are loaded from outside the repository
  sources; every function that reads them takes them as parameters.
\<close>

record heuristic_definition =
  def_score :: int
  def_attack_id :: "string list"
  def_signature_score_map :: "(string \<times> int) list"

record Heuristic =
  heur_definition :: heuristic_definition
  heur_id :: int
  attack_ids :: "string list"
  score :: int
  frequency :: int
  signatures :: "(string \<times> int) list"

text \<open>
  The body shared by the loop at the end of \<^verbatim>\<open>Heuristic.__init__\<close> and by
  \<^verbatim>\<open>add_signature_id\<close>: the amount one signature with count \<open>freq\<close> adds to the score.
  \<^verbatim>\<open>
  if sig_name in self.definition.signature_score_map:
      self.score += self.definition.signature_score_map[sig_name] * freq
  else:
      self.score += self.definition.score * freq
  \<close>
\<close>

definition signature_delta :: "heuristic_definition \<Rightarrow> string \<Rightarrow> int \<Rightarrow> int" where
  "signature_delta d sig_name freq =
     (case dict_get (def_signature_score_map d) sig_name of
        Some override \<Rightarrow> override * freq
      | None \<Rightarrow> def_score d * freq)"

text \<open>The loop \<^verbatim>\<open>for sig_name, freq in self.signatures.items()\<close>, from a running score.\<close>

fun score_signatures :: "heuristic_definition \<Rightarrow> (string \<times> int) list \<Rightarrow> int \<Rightarrow> int" where
  "score_signatures d [] sc = sc"
| "score_signatures d ((sig_name, freq) # rest) sc =
     score_signatures d rest (sc + signature_delta d sig_name freq)"

text \<open>
  \<^verbatim>\<open>Heuristic.__init__(heur_id, attack_id, signature, attack_ids, signatures, frequency)\<close>.
  The warning logged for an attack id outside \<^verbatim>\<open>attack_map\<close> is not modelled; the id is
  dropped as in the source.
\<close>

definition Heuristic_init ::
  "(int \<Rightarrow> heuristic_definition option) \<Rightarrow> string set \<Rightarrow> int \<Rightarrow> string option \<Rightarrow>
   string option \<Rightarrow> string list option \<Rightarrow> (string \<times> int) list option \<Rightarrow> int \<Rightarrow>
   error + Heuristic" where
  "Heuristic_init HEUR_LIST attack_map hid attack_id signature attack_ids_arg signatures_arg freq =
     (case HEUR_LIST hid of
        None \<Rightarrow> Inl (InvalidHeuristicException (NotInManifest hid))
      | Some d \<Rightarrow>
          let ids0 = (case attack_ids_arg of None \<Rightarrow> [] | Some l \<Rightarrow> l);
              ids1 = (case attack_id of
                        None \<Rightarrow> ids0
                      | Some a \<Rightarrow> if a \<noteq> [] then ids0 @ [a] else ids0);
              ids2 = (if ids1 = [] \<and> def_attack_id d \<noteq> [] then ids1 @ def_attack_id d else ids1);
              valid_ids = filter (\<lambda>a. a \<in> attack_map) ids2;
              sigs0 = (case signatures_arg of None \<Rightarrow> [] | Some m \<Rightarrow> m);
              sigs1 = (case signature of
                         None \<Rightarrow> sigs0
                       | Some s \<Rightarrow>
                           if s \<noteq> [] then dict_increment sigs0 s 1 else sigs0);
              freq0 = (if sigs1 = [] then freq else 0);
              score0 = (if sigs1 = [] then 0 + def_score d * freq else 0)
          in Inr \<lparr> heur_definition = d, heur_id = hid, attack_ids = valid_ids,
                   score = score_signatures d sigs1 score0, frequency = freq0,
                   signatures = sigs1 \<rparr>)"

text \<open>\<^verbatim>\<open>Heuristic.add_signature_id(signature, frequency=1)\<close>.\<close>

definition add_signature_id :: "Heuristic \<Rightarrow> string \<Rightarrow> int \<Rightarrow> Heuristic" where
  "add_signature_id h signature freq =
     h\<lparr> signatures := dict_increment (signatures h) signature freq,
        score := score h + signature_delta (heur_definition h) signature freq \<rparr>"

text \<open>\<^verbatim>\<open>Heuristic.increment_frequency(frequency=1)\<close>.\<close>

definition increment_frequency :: "Heuristic \<Rightarrow> int \<Rightarrow> Heuristic" where
  "increment_frequency h freq =
     h\<lparr> frequency := frequency h + freq,
        score := score h + def_score (heur_definition h) * freq \<rparr>"

text \<open>\<^verbatim>\<open>get_heuristic_primitives\<close>: the dictionary written for a heuristic.\<close>

record heuristic_primitives =
  p_heur_id :: int
  p_score :: int
  p_attack_ids :: "string list"
  p_signatures :: "(string \<times> int) list"
  p_frequency :: int

definition get_heuristic_primitives :: "Heuristic option \<Rightarrow> heuristic_primitives option" where
  "get_heuristic_primitives heur =
     (case heur of
        None \<Rightarrow> None
      | Some h \<Rightarrow> Some \<lparr> p_heur_id = heur_id h, p_score = score h, p_attack_ids = attack_ids h,
                         p_signatures = signatures h, p_frequency = frequency h \<rparr>)"

section \<open>ResultSection\<close>

datatype body_format = TEXT | MEMORY_DUMP | GRAPH_DATA | URL | JSON | KEY_VALUE

type_synonym Classification = string

text \<open>
  The attributes of a section other than its children. The \<^verbatim>\<open>parent\<close> pointer is not a
  field: a section in \<^verbatim>\<open>subsections\<close> has the section holding it as its parent
  (\<^verbatim>\<open>add_subsection\<close> sets it), and \<^verbatim>\<open>finalize\<close> below receives what it reads of the
  parent as an argument.
\<close>

record section_attrs =
  finalized :: bool
  body :: "string option"
  classification :: Classification
  body_format :: body_format
  depth :: int
  tags :: "(string \<times> string list) list"
  heuristic :: "Heuristic option"
  title_text :: string

datatype ResultSection =
  ResultSection (attrs: section_attrs) (subsections: "ResultSection list")

text \<open>
  \<^verbatim>\<open>ResultSection.__init__\<close>, without its last step (attaching the new section to
  \<open>parent\<close>, which is \<open>add_subsection\<close> or \<open>add_section\<close> on the parent). The title is a
  string or a list of strings; \<^verbatim>\<open>safe_str\<close> belongs to the assemblyline library and is a
  parameter, as is the service's \<^verbatim>\<open>default_result_classification\<close>. A \<open>heuristic\<close>
  argument has type \<open>Heuristic\<close> here, so the \<^verbatim>\<open>isinstance\<close> branch that logs a warning
  is not reachable.
\<close>

datatype title_arg = TitleStr string | TitleList "string list"

definition ResultSection_init ::
  "(string \<Rightarrow> string) \<Rightarrow> Classification \<Rightarrow> title_arg \<Rightarrow> string option \<Rightarrow>
   Classification option \<Rightarrow> body_format \<Rightarrow> Heuristic option \<Rightarrow>
   (string \<times> string list) list option \<Rightarrow> ResultSection" where
  "ResultSection_init safe_str default_result_classification title b cls bf heur tgs =
     ResultSection
       \<lparr> finalized = False,
         body = b,
         classification = (case cls of
                             None \<Rightarrow> default_result_classification
                           | Some c \<Rightarrow> if c \<noteq> [] then c else default_result_classification),
         body_format = bf,
         depth = 0,
         tags = (case tgs of None \<Rightarrow> [] | Some t \<Rightarrow> t),
         heuristic = heur,
         title_text = safe_str (case title of TitleStr t \<Rightarrow> t | TitleList ts \<Rightarrow> concat ts) \<rparr>
       []"

text \<open>\<^verbatim>\<open>ResultSection.add_subsection(subsection, on_top=False)\<close>.\<close>

definition add_subsection :: "ResultSection \<Rightarrow> ResultSection \<Rightarrow> bool \<Rightarrow> ResultSection" where
  "add_subsection s subsection on_top =
     ResultSection (attrs s)
       (if on_top then subsection # subsections s else subsections s @ [subsection])"

text \<open>A tag value as \<^verbatim>\<open>add_tag\<close> receives it: \<^verbatim>\<open>Union[str, bytes]\<close>.\<close>

datatype tag_value = Str string | Bytes string

text \<open>
  \<^verbatim>\<open>if isinstance(value, bytes): value = value.decode()\<close>: the text that is inserted,
  \<open>None\<close> where decoding raises.
\<close>

definition tag_text :: "(string \<Rightarrow> string option) \<Rightarrow> tag_value \<Rightarrow> string option" where
  "tag_text decode val = (case val of Bytes b \<Rightarrow> decode b | Str v \<Rightarrow> Some v)"

text \<open>
  \<^verbatim>\<open>ResultSection.add_tag(tag_type, value)\<close>. The value is text or bytes; bytes are decoded
  first, and \<^verbatim>\<open>bytes.decode\<close> (a parameter) can fail before anything is changed. The
  \<open>None\<close> branch of the second lookup is the \<^verbatim>\<open>KeyError\<close> that the first \<^verbatim>\<open>if\<close> rules
  out.
  \<^verbatim>\<open>
  if isinstance(value, bytes):
      value = value.decode()
  if tag_type not in self.tags:
      self.tags[tag_type] = []
  if value not in self.tags[tag_type]:
      self.tags[tag_type].append(value)
  \<close>
\<close>

definition add_tag ::
  "(string \<Rightarrow> string option) \<Rightarrow> ResultSection \<Rightarrow> string \<Rightarrow> tag_value \<Rightarrow> error + ResultSection" where
  "add_tag decode s tag_type val =
     (case tag_text decode val of
        None \<Rightarrow> Inl UnicodeDecodeError
      | Some v \<Rightarrow>
          let tags1 = (case dict_get (tags (attrs s)) tag_type of
                         None \<Rightarrow> dict_set (tags (attrs s)) tag_type []
                       | Some _ \<Rightarrow> tags (attrs s));
              tags2 = (case dict_get tags1 tag_type of
                         None \<Rightarrow> tags1
                       | Some vs \<Rightarrow> if v \<notin> set vs then dict_set tags1 tag_type (vs @ [v]) else tags1)
          in Inr (ResultSection ((attrs s)\<lparr> tags := tags2 \<rparr>) (subsections s)))"

text \<open>
  \<^verbatim>\<open>ResultSection.set_heuristic(heur_id, attack_id=None, signature=None)\<close>. A \<open>Heuristic\<close>
  object defines neither \<^verbatim>\<open>__bool__\<close> nor \<^verbatim>\<open>__len__\<close>, so \<^verbatim>\<open>if self.heuristic:\<close> is
  true exactly when the attribute is not \<^verbatim>\<open>None\<close>.
\<close>

definition set_heuristic ::
  "(int \<Rightarrow> heuristic_definition option) \<Rightarrow> string set \<Rightarrow> ResultSection \<Rightarrow> int \<Rightarrow>
   string option \<Rightarrow> string option \<Rightarrow> error + ResultSection" where
  "set_heuristic HEUR_LIST attack_map s hid attack_id signature =
     (case heuristic (attrs s) of
        Some current \<Rightarrow> Inl (InvalidHeuristicException (SetTwice (heur_id current) hid))
      | None \<Rightarrow>
          (case Heuristic_init HEUR_LIST attack_map hid attack_id signature None None 1 of
             Inl e \<Rightarrow> Inl e
           | Inr h \<Rightarrow> Inr (ResultSection ((attrs s)\<lparr> heuristic := Some h \<rparr>) (subsections s))))"

text \<open>
  What \<^verbatim>\<open>finalize\<close> sees of \<^verbatim>\<open>self.parent\<close>: nothing (\<^verbatim>\<open>None\<close>), the \<^verbatim>\<open>Result\<close>, or a
  \<^verbatim>\<open>ResultSection\<close>, of which it reads and writes the classification only.
\<close>

datatype parent = NoParent | ParentResult | ParentSection Classification

text \<open>
  \<^verbatim>\<open>ResultSection.finalize(depth=0)\<close>, with \<^verbatim>\<open>Classification.max_classification\<close> a
  parameter (\<open>None\<close> where it raises \<^verbatim>\<open>InvalidClassification\<close>). It returns \<^verbatim>\<open>keep_me\<close>,
  the section as the call leaves it, and the parent as the call leaves it.

  \<open>finalize_subsections\<close> is the loop over \<^verbatim>\<open>self.subsections\<close>. Its state is the
  classification of \<^verbatim>\<open>self\<close> (each child writes it through its parent pointer), the
  children already finalized (\<open>done\<close>), those to come, and \<^verbatim>\<open>tmp_subs\<close>. The value a
  child's \<^verbatim>\<open>finalize\<close> returns is dropped, as in the source, and the test
  \<^verbatim>\<open>subsection in self.subsections\<close> is made on the list as it stands at that moment.
  \<^verbatim>\<open>
  for subsection in self.subsections:
      subsection.finalize(depth=depth+1)
      # Unwrap it if we're going to keep it
      if subsection in self.subsections:
          tmp_subs.append(subsection)
  self.subsections = tmp_subs
  \<close>
\<close>

fun finalize ::
  "(Classification \<Rightarrow> Classification \<Rightarrow> Classification option) \<Rightarrow> int \<Rightarrow> parent \<Rightarrow>
   ResultSection \<Rightarrow> error + (bool \<times> ResultSection \<times> parent)"
and finalize_subsections ::
  "(Classification \<Rightarrow> Classification \<Rightarrow> Classification option) \<Rightarrow> int \<Rightarrow> Classification \<Rightarrow>
   ResultSection list \<Rightarrow> ResultSection list \<Rightarrow> ResultSection list \<Rightarrow>
   error + (ResultSection list \<times> Classification)" where
  "finalize max_classification d par (ResultSection a subs) =
     (if finalized a then Inl ResultAggregationException
      else
        (case finalize_subsections max_classification d (classification a) [] subs [] of
           Inl e \<Rightarrow> Inl e
         | Inr (tmp_subs, cls) \<Rightarrow>
             let self = ResultSection (a\<lparr> finalized := True, depth := d, classification := cls \<rparr>)
                          tmp_subs
             in (case par of
                   ParentSection parent_cls \<Rightarrow>
                     (case max_classification cls parent_cls of
                        Some m \<Rightarrow> Inr (True, self, ParentSection m)
                      | None \<Rightarrow> Inr (False, self, par))
                 | _ \<Rightarrow> Inr (True, self, par))))"
| "finalize_subsections max_classification d cls done [] tmp_subs = Inr (tmp_subs, cls)"
| "finalize_subsections max_classification d cls done (subsection # rest) tmp_subs =
     (case finalize max_classification (d + 1) (ParentSection cls) subsection of
        Inl e \<Rightarrow> Inl e
      | Inr (keep, subsection', par') \<Rightarrow>
          let cls' = (case par' of ParentSection c \<Rightarrow> c | _ \<Rightarrow> cls);
              tmp_subs' = (if subsection' \<in> set (done @ subsection' # rest)
                           then tmp_subs @ [subsection'] else tmp_subs)
          in finalize_subsections max_classification d cls' (done @ [subsection']) rest tmp_subs')"

section \<open>Result\<close>

text \<open>
  One entry of \<^verbatim>\<open>_flattened_sections\<close>, as \<^verbatim>\<open>_append_section\<close> builds it.
  \<^verbatim>\<open>unflatten\<close> (assemblyline's \<^verbatim>\<open>dict_utils\<close>) is a parameter; \<open>'t\<close> is what it returns.
\<close>

record 't section_record =
  rec_body :: "string option"
  rec_classification :: Classification
  rec_body_format :: body_format
  rec_depth :: int
  rec_heuristic :: "heuristic_primitives option"
  rec_tags :: 't
  rec_title_text :: string

record 't Result =
  flattened_sections :: "'t section_record list"
  result_score :: int
  sections :: "ResultSection list"

record 't result_dict =
  out_score :: int
  out_sections :: "'t section_record list"

definition Result_init :: "ResultSection list option \<Rightarrow> 't Result" where
  "Result_init secs =
     \<lparr> flattened_sections = [], result_score = 0,
       sections = (case secs of None \<Rightarrow> [] | Some l \<Rightarrow> l) \<rparr>"

definition add_section :: "'t Result \<Rightarrow> ResultSection \<Rightarrow> bool \<Rightarrow> 't Result" where
  "add_section r s on_top =
     r\<lparr> sections := (if on_top then s # sections r else sections r @ [s]) \<rparr>"

text \<open>
  \<^verbatim>\<open>Result._append_section\<close>, on the list \<^verbatim>\<open>self._flattened_sections\<close>.
  \<^verbatim>\<open>
  self._flattened_sections.append(dict(
      body=section.body,
      classification=section.classification,
      body_format=section.body_format,
      depth=section.depth,
      heuristic=get_heuristic_primitives(section.heuristic),
      tags=unflatten(section.tags),
      title_text=section.title_text,
  ))
  \<close>
\<close>

definition append_section ::
  "((string \<times> string list) list \<Rightarrow> 't) \<Rightarrow> ResultSection \<Rightarrow> 't section_record list \<Rightarrow>
   't section_record list" where
  "append_section unflatten s flat =
     flat @ [\<lparr> rec_body = body (attrs s),
               rec_classification = classification (attrs s),
               rec_body_format = body_format (attrs s),
               rec_depth = depth (attrs s),
               rec_heuristic = get_heuristic_primitives (heuristic (attrs s)),
               rec_tags = unflatten (tags (attrs s)),
               rec_title_text = title_text (attrs s) \<rparr>]"

text \<open>
  \<^verbatim>\<open>Result._flatten_sections(section, root=True)\<close>, on the list
  \<^verbatim>\<open>self._flattened_sections\<close>; \<open>flatten_subsections\<close> is its \<^verbatim>\<open>for\<close> loop.
\<close>

fun flatten_sections ::
  "((string \<times> string list) list \<Rightarrow> 't) \<Rightarrow> ResultSection \<Rightarrow> bool \<Rightarrow> 't section_record list \<Rightarrow>
   't section_record list"
and flatten_subsections ::
  "((string \<times> string list) list \<Rightarrow> 't) \<Rightarrow> ResultSection list \<Rightarrow> 't section_record list \<Rightarrow>
   't section_record list" where
  "flatten_sections unflatten (ResultSection a subs) root flat =
     (if length subs > 0 then
        flatten_subsections unflatten subs
          (if root then append_section unflatten (ResultSection a subs) flat else flat)
      else append_section unflatten (ResultSection a subs) flat)"
| "flatten_subsections unflatten [] flat = flat"
| "flatten_subsections unflatten (subsection # rest) flat =
     (let flat1 = append_section unflatten subsection flat;
          flat2 = (if length (subsections subsection) > 0
                   then flatten_sections unflatten subsection False flat1 else flat1)
      in flatten_subsections unflatten rest flat2)"

text \<open>
  The first loop of \<^verbatim>\<open>Result.finalize\<close>: every top-level section gets the \<^verbatim>\<open>Result\<close> as
  its parent and is finalized at depth 0; the result pairs each section with what its
  \<^verbatim>\<open>finalize\<close> returned.
\<close>

fun finalize_sections ::
  "(Classification \<Rightarrow> Classification \<Rightarrow> Classification option) \<Rightarrow> ResultSection list \<Rightarrow>
   error + (ResultSection \<times> bool) list" where
  "finalize_sections max_classification [] = Inr []"
| "finalize_sections max_classification (s # rest) =
     (case finalize max_classification 0 ParentResult s of
        Inl e \<Rightarrow> Inl e
      | Inr (keep, s', _) \<Rightarrow>
          (case finalize_sections max_classification rest of
             Inl e \<Rightarrow> Inl e
           | Inr ks \<Rightarrow> Inr ((s', keep) # ks)))"

text \<open>
  \<^verbatim>\<open>Result.finalize()\<close>: the state it leaves and the dictionary it returns. Sections whose
  \<^verbatim>\<open>finalize\<close> returned false are removed, the remaining ones are flattened in order onto
  \<^verbatim>\<open>_flattened_sections\<close>, and the score of every entry of that list that has a
  heuristic is added to \<^verbatim>\<open>_score\<close>.
  \<^verbatim>\<open>
  for section in self._flattened_sections:
      heuristic = section.get('heuristic')
      if heuristic:
          self._score += heuristic['score']
  \<close>
\<close>

definition Result_finalize ::
  "(Classification \<Rightarrow> Classification \<Rightarrow> Classification option) \<Rightarrow>
   ((string \<times> string list) list \<Rightarrow> 't) \<Rightarrow> 't Result \<Rightarrow> error + ('t Result \<times> 't result_dict)" where
  "Result_finalize max_classification unflatten r =
     (case finalize_sections max_classification (sections r) of
        Inl e \<Rightarrow> Inl e
      | Inr ks \<Rightarrow>
          let kept = map fst (filter snd ks);
              flat = fold (\<lambda>s acc. flatten_sections unflatten s True acc) kept
                       (flattened_sections r);
              sc = fold (\<lambda>entry acc. case rec_heuristic entry of
                                         None \<Rightarrow> acc
                                       | Some h \<Rightarrow> acc + p_score h)
                     flat (result_score r)
          in Inr (r\<lparr> flattened_sections := flat, result_score := sc, sections := kept \<rparr>,
                  \<lparr> out_score = sc, out_sections = flat \<rparr>))"

section \<open>Task: extracted and supplementary files\<close>

text \<open>
  The file system that \<^verbatim>\<open>os.path\<close> and \<^verbatim>\<open>shutil\<close> act on: the regular files by their
  absolute path, with their content, the directories other than the root by their
  absolute path, and the current directory of the process, against which a relative path
  is read. Paths are not normalised (no \<^verbatim>\<open>..\<close>, no repeated or trailing slashes), and
  there are no symbolic links.
\<close>

record filesystem =
  files :: "string \<Rightarrow> string option"
  dirs :: "string set"
  cwd :: string

text \<open>\<^verbatim>\<open>os.path.join(a, b)\<close> and \<^verbatim>\<open>os.path.dirname(p)\<close> of \<^verbatim>\<open>posixpath\<close>.\<close>

definition os_path_join :: "string \<Rightarrow> string \<Rightarrow> string" where
  "os_path_join a b =
     (if b \<noteq> [] \<and> hd b = CHR ''/'' then b
      else if a = [] \<or> last a = CHR ''/'' then a @ b
      else a @ ''/'' @ b)"

definition os_path_dirname :: "string \<Rightarrow> string" where
  "os_path_dirname p =
     (let head = rev (dropWhile (\<lambda>c. c \<noteq> CHR ''/'') (rev p))
      in if head \<noteq> [] \<and> filter (\<lambda>c. c \<noteq> CHR ''/'') head \<noteq> []
         then rev (dropWhile (\<lambda>c. c = CHR ''/'') (rev head))
         else head)"

text \<open>The absolute path the operating system reads for \<open>p\<close>.\<close>

definition resolve :: "filesystem \<Rightarrow> string \<Rightarrow> string" where
  "resolve fs p = os_path_join (cwd fs) p"

text \<open>
  What the operating system answers about absolute paths: whether \<open>q\<close> is a directory;
  the path \<open>q\<close> and the directories above it other than the root, outermost first
  (\<open>dir_prefixes [] ''/a/b''\<close> is \<open>[''/a'', ''/a/b'']\<close>); whether one of them is a regular
  file, so that the path cannot be reached; and whether \<open>q\<close> is \<open>d\<close> or lies below it.
\<close>

definition is_dir :: "filesystem \<Rightarrow> string \<Rightarrow> bool" where
  "is_dir fs q = (q = ''/'' \<or> q \<in> dirs fs)"

fun dir_prefixes :: "string \<Rightarrow> string \<Rightarrow> string list" where
  "dir_prefixes acc [] = [acc]"
| "dir_prefixes acc (c # cs) =
     (if c = CHR ''/'' \<and> acc \<noteq> [] then acc # dir_prefixes (acc @ [c]) cs
      else dir_prefixes (acc @ [c]) cs)"

definition blocked_by_file :: "filesystem \<Rightarrow> string \<Rightarrow> bool" where
  "blocked_by_file fs q = list_ex (\<lambda>p. files fs p \<noteq> None) (dir_prefixes [] q)"

definition under :: "string \<Rightarrow> string \<Rightarrow> bool" where
  "under d q = (q = d \<or> take (length d + 1) q = d @ ''/'')"

text \<open>\<^verbatim>\<open>os.path.exists(p)\<close>; it is false for the empty path.\<close>

definition os_path_exists :: "filesystem \<Rightarrow> string \<Rightarrow> bool" where
  "os_path_exists fs p =
     (if p = [] then False
      else (case files fs (resolve fs p) of
              Some _ \<Rightarrow> True
            | None \<Rightarrow> is_dir fs (resolve fs p)))"

text \<open>
  \<^verbatim>\<open>os.makedirs(p)\<close>: it creates the directory and the missing directories above it. It
  raises for the empty path, for a path that exists, and where a regular file stands in
  the way.
\<close>

definition os_makedirs :: "filesystem \<Rightarrow> string \<Rightarrow> error + filesystem" where
  "os_makedirs fs p =
     (if p = [] then Inl FileNotFoundError
      else if os_path_exists fs p then Inl FileExistsError
      else if blocked_by_file fs (resolve fs p) then Inl NotADirectoryError
      else Inr (fs\<lparr> dirs := dirs fs \<union> set (dir_prefixes [] (resolve fs p)) \<rparr>))"

text \<open>
  \<^verbatim>\<open>shutil.move(src, dst)\<close> for a destination that does not exist (the only call in
  \<^verbatim>\<open>task.py\<close> is guarded by \<^verbatim>\<open>not os.path.exists(file_path)\<close>). It tries \<^verbatim>\<open>os.rename\<close> and,
  when that fails, copies the source and removes it.
  \<^item> A regular file is moved when the directory of the destination exists; otherwise the
    copy raises \<^verbatim>\<open>NotADirectoryError\<close> (a regular file in the way) or
    \<^verbatim>\<open>FileNotFoundError\<close> (the directory is missing).
  \<^item> A directory is moved with everything below it; where \<^verbatim>\<open>os.rename\<close> fails because the
    directory of the destination is missing, \<^verbatim>\<open>copytree\<close> creates it. Moving a directory
    into itself raises \<^verbatim>\<open>shutil.Error\<close>.
  \<^item> A source that does not exist raises \<^verbatim>\<open>FileNotFoundError\<close>.
\<close>

definition shutil_move :: "filesystem \<Rightarrow> string \<Rightarrow> string \<Rightarrow> error + filesystem" where
  "shutil_move fs src dst =
     (let s = resolve fs src;
          t = resolve fs dst;
          parent = os_path_dirname t
      in case files fs s of
           Some content \<Rightarrow>
             if blocked_by_file fs parent then Inl NotADirectoryError
             else if is_dir fs parent
               then Inr (fs\<lparr> files := ((files fs)(s := None))(t \<mapsto> content) \<rparr>)
             else Inl FileNotFoundError
         | None \<Rightarrow>
             if s \<in> dirs fs then
               (if under s t then Inl ShutilError
                else if blocked_by_file fs parent then Inl NotADirectoryError
                else Inr (fs\<lparr> files := (\<lambda>q. if under t q then files fs (s @ drop (length t) q)
                                            else if under s q then None
                                            else files fs q),
                              dirs := (\<lambda>d. t @ drop (length s) d) ` {d \<in> dirs fs. under s d}
                                      \<union> {d \<in> dirs fs. \<not> under s d}
                                      \<union> set (dir_prefixes [] parent) \<rparr>))
             else Inl FileNotFoundError)"

text \<open>
  \<^verbatim>\<open>get_sha256_for_file(path)\<close> of assemblyline's \<^verbatim>\<open>digests\<close>: it opens and reads the
  file; the hash function on contents is a parameter.
\<close>

definition get_sha256_for_file ::
  "(string \<Rightarrow> string) \<Rightarrow> filesystem \<Rightarrow> string \<Rightarrow> error + string" where
  "get_sha256_for_file sha256_of fs p =
     (case files fs (resolve fs p) of
        Some content \<Rightarrow> Inr (sha256_of content)
      | None \<Rightarrow> if is_dir fs (resolve fs p) then Inl IsADirectoryError
                else Inl FileNotFoundError)"

text \<open>The \<^verbatim>\<open>File\<close> record appended to \<^verbatim>\<open>extracted\<close> or \<^verbatim>\<open>supplementary\<close>.\<close>

record File =
  file_name :: string
  file_sha256 :: string
  file_description :: string
  file_classification :: "Classification option"

text \<open>
  The attributes of a \<^verbatim>\<open>Task\<close> that \<^verbatim>\<open>add_extracted\<close> and \<^verbatim>\<open>add_supplementary\<close> read
  or write. \<^verbatim>\<open>_working_directory\<close> is \<^verbatim>\<open>None\<close> until \<^verbatim>\<open>working_directory()\<close> is called,
  and \<^verbatim>\<open>os.path.join(None, name)\<close> raises \<^verbatim>\<open>TypeError\<close>.
\<close>

record Task =
  working_directory :: "string option"
  extracted :: "File list"
  supplementary :: "File list"

text \<open>
  \<^verbatim>\<open>Task.add_extracted(path, name, description, classification=None)\<close>: the file system
  and the task as the call leaves them.
  \<^verbatim>\<open>
  file_path = os.path.join(self._working_directory, name)
  folder_path = os.path.dirname(path)
  if not os.path.exists(folder_path):
      os.makedirs(folder_path)
  if not os.path.exists(file_path):
      shutil.move(name, file_path)
  file = File(dict(name=name, sha256=get_sha256_for_file(path),
                   description=description, classification=classification))
  self.extracted.append(file)
  \<close>
\<close>

definition add_extracted ::
  "(string \<Rightarrow> string) \<Rightarrow> filesystem \<Rightarrow> Task \<Rightarrow> string \<Rightarrow> string \<Rightarrow> string \<Rightarrow>
   Classification option \<Rightarrow> error + (filesystem \<times> Task)" where
  "add_extracted sha256_of fs t path name description cls =
     (case working_directory t of
        None \<Rightarrow> Inl TypeError
      | Some wd \<Rightarrow>
          let file_path = os_path_join wd name;
              folder_path = os_path_dirname path
          in (case (if os_path_exists fs folder_path then Inr fs else os_makedirs fs folder_path) of
                Inl e \<Rightarrow> Inl e
              | Inr fs1 \<Rightarrow>
                  (case (if os_path_exists fs1 file_path then Inr fs1
                         else shutil_move fs1 name file_path) of
                     Inl e \<Rightarrow> Inl e
                   | Inr fs2 \<Rightarrow>
                       (case get_sha256_for_file sha256_of fs2 path of
                          Inl e \<Rightarrow> Inl e
                        | Inr h \<Rightarrow>
                            let file = \<lparr> file_name = name, file_sha256 = h,
                                          file_description = description,
                                          file_classification = cls \<rparr>
                            in Inr (fs2, t\<lparr> extracted := extracted t @ [file] \<rparr>)))))"

text \<open>
  \<^verbatim>\<open>Task.add_supplementary\<close>: the same statements, appending to \<^verbatim>\<open>self.supplementary\<close>.
\<close>

definition add_supplementary ::
  "(string \<Rightarrow> string) \<Rightarrow> filesystem \<Rightarrow> Task \<Rightarrow> string \<Rightarrow> string \<Rightarrow> string \<Rightarrow>
   Classification option \<Rightarrow> error + (filesystem \<times> Task)" where
  "add_supplementary sha256_of fs t path name description cls =
     (case working_directory t of
        None \<Rightarrow> Inl TypeError
      | Some wd \<Rightarrow>
          let file_path = os_path_join wd name;
              folder_path = os_path_dirname path
          in (case (if os_path_exists fs folder_path then Inr fs else os_makedirs fs folder_path) of
                Inl e \<Rightarrow> Inl e
              | Inr fs1 \<Rightarrow>
                  (case (if os_path_exists fs1 file_path then Inr fs1
                         else shutil_move fs1 name file_path) of
                     Inl e \<Rightarrow> Inl e
                   | Inr fs2 \<Rightarrow>
                       (case get_sha256_for_file sha256_of fs2 path of
                          Inl e \<Rightarrow> Inl e
                        | Inr h \<Rightarrow>
                            let file = \<lparr> file_name = name, file_sha256 = h,
                                          file_description = description,
                                          file_classification = cls \<rparr>
                            in Inr (fs2, t\<lparr> supplementary := supplementary t @ [file] \<rparr>)))))"

section \<open>What the properties are stated with\<close>

text \<open>
  The pre-order of a section tree in the words of the specification: a section, then each
  of its children with all of that child's descendants, the children in list order.
  \<open>count_sections\<close> is the number of sections of a tree.
\<close>

fun preorder :: "ResultSection \<Rightarrow> ResultSection list" where
  "preorder (ResultSection a subs) = ResultSection a subs # concat (map preorder subs)"

fun count_sections :: "ResultSection \<Rightarrow> nat" where
  "count_sections (ResultSection a subs) = Suc (sum_list (map count_sections subs))"

text \<open>
  The record the specification gives for a section: its title, body, body format,
  classification and depth, its heuristic as \<open>{heur_id, score, attack_ids, signatures,
  frequency}\<close> or nothing, and its tags.
\<close>

definition section_record_of ::
  "((string \<times> string list) list \<Rightarrow> 't) \<Rightarrow> ResultSection \<Rightarrow> 't section_record" where
  "section_record_of unflatten s =
     \<lparr> rec_body = body (attrs s),
       rec_classification = classification (attrs s),
       rec_body_format = body_format (attrs s),
       rec_depth = depth (attrs s),
       rec_heuristic =
         map_option
           (\<lambda>h. \<lparr> p_heur_id = heur_id h, p_score = score h, p_attack_ids = attack_ids h,
                   p_signatures = signatures h, p_frequency = frequency h \<rparr>)
           (heuristic (attrs s)),
       rec_tags = unflatten (tags (attrs s)),
       rec_title_text = title_text (attrs s) \<rparr>"

text \<open>The heuristic score of a record and of a section, 0 where there is no heuristic.\<close>

definition record_score :: "'t section_record \<Rightarrow> int" where
  "record_score r = (case rec_heuristic r of None \<Rightarrow> 0 | Some h \<Rightarrow> p_score h)"

definition heuristic_score :: "ResultSection \<Rightarrow> int" where
  "heuristic_score s = (case heuristic (attrs s) of None \<Rightarrow> 0 | Some h \<Rightarrow> score h)"

text \<open>
  The tree that finalizing at depth \<open>d\<close> makes of a tree: every section is marked
  finalized and gets its depth, the root \<open>d\<close> and a child one more than its parent; every
  child stays, in its place; and the classification of a section is raised, child by
  child in list order, to the maximum of its own and the finalized child's, a child for
  which the maximum is not defined leaving it as it is.
\<close>

definition raise_classification ::
  "(Classification \<Rightarrow> Classification \<Rightarrow> Classification option) \<Rightarrow> Classification \<Rightarrow>
   ResultSection \<Rightarrow> Classification" where
  "raise_classification max_classification c child =
     (case max_classification (classification (attrs child)) c of Some m \<Rightarrow> m | None \<Rightarrow> c)"

fun finalized_tree ::
  "(Classification \<Rightarrow> Classification \<Rightarrow> Classification option) \<Rightarrow> int \<Rightarrow> ResultSection \<Rightarrow>
   ResultSection" where
  "finalized_tree max_classification d (ResultSection a subs) =
     ResultSection
       (a\<lparr> finalized := True, depth := d,
           classification :=
             foldl (raise_classification max_classification) (classification a)
               (map (finalized_tree max_classification (d + 1)) subs) \<rparr>)
       (map (finalized_tree max_classification (d + 1)) subs)"

text \<open>A tree no section of which has been finalized: what a service hands to \<^verbatim>\<open>Result\<close>.\<close>

fun never_finalized :: "ResultSection \<Rightarrow> bool" where
  "never_finalized (ResultSection a subs) = (\<not> finalized a \<and> list_all never_finalized subs)"

text \<open>
  The score one occurrence of a signature is worth in the words of the specification: the
  override of the manifest entry where it has one for the signature, its base score
  otherwise.
\<close>

definition signature_rate :: "heuristic_definition \<Rightarrow> string \<Rightarrow> int" where
  "signature_rate d sig_name =
     (case dict_get (def_signature_score_map d) sig_name of Some override \<Rightarrow> override | None \<Rightarrow> def_score d)"

text \<open>The values a section holds under a tag type: \<^verbatim>\<open>self.tags.get(tag_type, [])\<close>.\<close>

definition tag_values :: "ResultSection \<Rightarrow> string \<Rightarrow> string list" where
  "tag_values s tag_type = (case dict_get (tags (attrs s)) tag_type of None \<Rightarrow> [] | Some vs \<Rightarrow> vs)"

section \<open>Example data\<close>

text \<open>
  A manifest with four heuristics (base scores 10, 5, 3 and -1000; the first one overrides
  the score of signature \<^verbatim>\<open>sig_a\<close> to 100), a catalogue with one technique, and a
  classification engine with the two levels \<^verbatim>\<open>U\<close> below \<^verbatim>\<open>R\<close> in which every other label
  is invalid.
\<close>

definition example_HEUR_LIST :: "int \<Rightarrow> heuristic_definition option" where
  "example_HEUR_LIST =
     [1 \<mapsto> \<lparr> def_score = 10, def_attack_id = [], def_signature_score_map = [(''sig_a'', 100)] \<rparr>,
      2 \<mapsto> \<lparr> def_score = 5, def_attack_id = [], def_signature_score_map = [] \<rparr>,
      3 \<mapsto> \<lparr> def_score = 3, def_attack_id = [], def_signature_score_map = [] \<rparr>,
      4 \<mapsto> \<lparr> def_score = - 1000, def_attack_id = [], def_signature_score_map = [] \<rparr>]"

definition example_attack_map :: "string set" where
  "example_attack_map = {''T1001''}"

definition example_level :: "Classification \<Rightarrow> nat option" where
  "example_level c = (if c = ''U'' then Some 0 else if c = ''R'' then Some 1 else None)"

definition example_max_classification ::
  "Classification \<Rightarrow> Classification \<Rightarrow> Classification option" where
  "example_max_classification c1 c2 =
     (case example_level c1 of
        None \<Rightarrow> None
      | Some l1 \<Rightarrow>
          (case example_level c2 of
             None \<Rightarrow> None
           | Some l2 \<Rightarrow> Some (if l1 \<le> l2 then c2 else c1)))"

text \<open>\<^verbatim>\<open>Heuristic(hid)\<close> against the example manifest, for a \<open>heuristic\<close> argument.\<close>

definition example_heuristic :: "int \<Rightarrow> Heuristic option" where
  "example_heuristic hid =
     (case Heuristic_init example_HEUR_LIST example_attack_map hid None None None None 1 of
        Inl _ \<Rightarrow> None
      | Inr h \<Rightarrow> Some h)"

text \<open>\<^verbatim>\<open>ResultSection(title, classification=cls, heuristic=heur)\<close>.\<close>

definition example_section :: "string \<Rightarrow> Classification \<Rightarrow> Heuristic option \<Rightarrow> ResultSection" where
  "example_section title cls heur =
     ResultSection_init (\<lambda>t. t) ''U'' (TitleStr title) None (Some cls) TEXT heur None"

text \<open>
  The tree of the specification's example: \<^verbatim>\<open>root\<close> (heuristic 1, score 10) with the
  children \<^verbatim>\<open>child1\<close> (heuristic 2, score 5) and \<^verbatim>\<open>child2\<close> (no heuristic), which has the
  child \<^verbatim>\<open>grandchild\<close> (heuristic 3, score 3).
\<close>

definition example_tree :: ResultSection where
  "example_tree =
     add_subsection
       (add_subsection (example_section ''root'' ''U'' (example_heuristic 1))
          (example_section ''child1'' ''U'' (example_heuristic 2)) False)
       (add_subsection (example_section ''child2'' ''U'' None)
          (example_section ''grandchild'' ''U'' (example_heuristic 3)) False)
       False"

text \<open>
  A root with two children, \<^verbatim>\<open>good\<close> (heuristic 2, score 5) and \<^verbatim>\<open>bad\<close> (heuristic 3,
  score 3), where the classification of \<^verbatim>\<open>bad\<close> is a label the engine rejects.
\<close>

definition example_bad_child :: ResultSection where
  "example_bad_child = example_section ''bad'' ''INVALID'' (example_heuristic 3)"

definition example_bad_tree :: ResultSection where
  "example_bad_tree =
     add_subsection
       (add_subsection (example_section ''root'' ''U'' None)
          (example_section ''good'' ''U'' (example_heuristic 2)) False)
       example_bad_child False"

text \<open>
  \<^verbatim>\<open>ResultSection('dup', tags={'ip': ['1.2.3.4', '1.2.3.4']})\<close>: a section whose tags
  argument repeats a value.
\<close>

definition example_dup_section :: ResultSection where
  "example_dup_section =
     ResultSection_init (\<lambda>t. t) ''U'' (TitleStr ''dup'') None None TEXT None
       (Some [(''ip'', [''1.2.3.4'', ''1.2.3.4''])])"

text \<open>
  A file system with the extracted file at \<^verbatim>\<open>/tmp/out/a.bin\<close>, the service started in
  \<^verbatim>\<open>/srv\<close>, and a task whose working directory is \<^verbatim>\<open>/work\<close>; the same with another file
  named \<^verbatim>\<open>a.bin\<close> in the current directory.
\<close>

definition example_fs :: filesystem where
  "example_fs =
     \<lparr> files = [''/tmp/out/a.bin'' \<mapsto> ''DATA''],
       dirs = {''/tmp/out'', ''/work'', ''/srv''},
       cwd = ''/srv'' \<rparr>"

definition example_fs_other :: filesystem where
  "example_fs_other =
     \<lparr> files = [''/tmp/out/a.bin'' \<mapsto> ''DATA'', ''/srv/a.bin'' \<mapsto> ''OTHER''],
       dirs = {''/tmp/out'', ''/work'', ''/srv''},
       cwd = ''/srv'' \<rparr>"

definition example_task :: Task where
  "example_task = \<lparr> working_directory = Some ''/work'', extracted = [], supplementary = [] \<rparr>"

definition example_sha256 :: "string \<Rightarrow> string" where
  "example_sha256 content = ''sha256:'' @ content"


section \<open>Dictionaries\<close>

lemma dict_get_set_same: "dict_get (dict_set d k v) k = Some v"
  by (induction d) auto

lemma dict_set_new: "dict_get d k = None \<Longrightarrow> dict_set d k v = d @ [(k, v)]"
  by (induction d) (auto split: if_splits)

lemma dict_set_set: "dict_set (dict_set d k v) k w = dict_set d k w"
  by (induction d) auto

lemma dict_increment_Nil: "dict_increment [] k n = [(k, n)]"
  by (simp add: dict_increment_def dict_setdefault_def)

lemma dict_increment_Cons:
  "dict_increment ((k', c) # d) k n =
     (if k' = k then (k', c + n) # d else (k', c) # dict_increment d k n)"
  by (auto simp: dict_increment_def dict_setdefault_def Let_def split: option.splits)

lemma dict_increment_not_Nil: "dict_increment d k n \<noteq> []"
  by (cases d) (auto simp: dict_increment_Nil dict_increment_Cons split: if_splits)

section \<open>The example data, evaluated\<close>

lemma example_heuristics:
  "example_heuristic 1 = Some \<lparr> heur_definition = \<lparr> def_score = 10, def_attack_id = [],
      def_signature_score_map = [(''sig_a'', 100)] \<rparr>, heur_id = 1, attack_ids = [], score = 10,
      frequency = 1, signatures = [] \<rparr>"
  "example_heuristic 2 = Some \<lparr> heur_definition = \<lparr> def_score = 5, def_attack_id = [],
      def_signature_score_map = [] \<rparr>, heur_id = 2, attack_ids = [], score = 5,
      frequency = 1, signatures = [] \<rparr>"
  "example_heuristic 3 = Some \<lparr> heur_definition = \<lparr> def_score = 3, def_attack_id = [],
      def_signature_score_map = [] \<rparr>, heur_id = 3, attack_ids = [], score = 3,
      frequency = 1, signatures = [] \<rparr>"
  "example_heuristic 4 = Some \<lparr> heur_definition = \<lparr> def_score = - 1000, def_attack_id = [],
      def_signature_score_map = [] \<rparr>, heur_id = 4, attack_ids = [], score = - 1000,
      frequency = 1, signatures = [] \<rparr>"
  by (simp_all add: example_heuristic_def example_HEUR_LIST_def Heuristic_init_def)

section \<open>Finalizing a section\<close>

text \<open>
  The loop of \<^verbatim>\<open>finalize\<close> puts every child it has finalized into \<^verbatim>\<open>tmp_subs\<close>, whatever
  the child's \<^verbatim>\<open>finalize\<close> returned: a section has as many children after \<^verbatim>\<open>finalize\<close>
  as before.
\<close>

lemma finalize_subsections_length:
  "finalize_subsections mc d cls seen subs tmp = Inr (tmp', cls')
   \<Longrightarrow> length tmp' = length tmp + length subs"
proof (induction subs arbitrary: cls seen tmp)
  case Nil
  then show ?case by simp
next
  case (Cons sub rest)
  from Cons.prems obtain keep sub' par' where
    f: "finalize mc (d + 1) (ParentSection cls) sub = Inr (keep, sub', par')"
    by (auto split: sum.splits)
  from Cons.prems f have
    "finalize_subsections mc d (case par' of ParentSection c \<Rightarrow> c | _ \<Rightarrow> cls)
       (seen @ [sub']) rest (tmp @ [sub']) = Inr (tmp', cls')"
    by (simp add: Let_def)
  from Cons.IH [OF this] show ?case by simp
qed

lemma finalize_keeps_every_subsection:
  assumes "finalize mc d par s = Inr (keep, s', par')"
  shows "length (subsections s') = length (subsections s)"
proof (cases s)
  case (ResultSection a subs)
  from assms obtain tmp cls where
    l: "finalize_subsections mc d (classification a) [] subs [] = Inr (tmp, cls)"
    and s': "subsections s' = tmp"
    unfolding ResultSection
    by (auto simp: Let_def split: if_splits sum.splits parent.splits option.splits)
  from finalize_subsections_length [OF l] s' show ?thesis by (simp add: ResultSection)
qed

text \<open>On a tree that has never been finalized, \<^verbatim>\<open>finalize\<close> returns.\<close>

lemma finalize_returns:
  "never_finalized s \<Longrightarrow> \<exists>keep s' par'. finalize mc d par s = Inr (keep, s', par')"
  "list_all never_finalized subs \<Longrightarrow>
     \<exists>tmp' cls'. finalize_subsections mc d cls seen subs tmp = Inr (tmp', cls')"
proof (induction mc d par s and mc d cls seen subs tmp rule: finalize_finalize_subsections.induct)
  case (1 mc d par a subs)
  from 1(2) have nf: "\<not> finalized a" and all: "list_all never_finalized subs" by simp_all
  from 1(1) [OF nf all] obtain tmp' cls' where
    "finalize_subsections mc d (classification a) [] subs [] = Inr (tmp', cls')" by blast
  with nf show ?case
    by (auto simp: Let_def split: parent.splits option.splits)
next
  case (2 mc d cls seen tmp)
  show ?case by simp
next
  case (3 mc d cls seen sub rest tmp)
  from 3(3) have s: "never_finalized sub" and r: "list_all never_finalized rest" by simp_all
  from 3(1) [OF s] obtain keep sub' par' where
    f: "finalize mc (d + 1) (ParentSection cls) sub = Inr (keep, sub', par')" by blast
  have "\<exists>tmp' cls'. finalize_subsections mc d (case par' of ParentSection c \<Rightarrow> c | _ \<Rightarrow> cls)
          (seen @ [sub']) rest (tmp @ [sub']) = Inr (tmp', cls')"
    using 3(2) [OF f refl refl refl refl r] by simp
  with f show ?case by (simp add: Let_def)
qed

text \<open>
  On a tree that has never been finalized, \<^verbatim>\<open>finalize\<close> leaves \<open>finalized_tree\<close> of it, and
  tells its caller to keep it unless it has a section for parent and the maximum of the
  two classifications is not defined; the parent's classification becomes that maximum
  where it is defined.
\<close>

lemma finalize_finalized_tree:
  "never_finalized s \<Longrightarrow>
     finalize mc d par s =
       Inr (case par of
              ParentSection pc \<Rightarrow>
                (case mc (classification (attrs (finalized_tree mc d s))) pc of
                   Some m \<Rightarrow> (True, finalized_tree mc d s, ParentSection m)
                 | None \<Rightarrow> (False, finalized_tree mc d s, par))
            | _ \<Rightarrow> (True, finalized_tree mc d s, par))"
  "list_all never_finalized subs \<Longrightarrow>
     finalize_subsections mc d cls seen subs tmp =
       Inr (tmp @ map (finalized_tree mc (d + 1)) subs,
            foldl (raise_classification mc) cls (map (finalized_tree mc (d + 1)) subs))"
proof (induction mc d par s and mc d cls seen subs tmp rule: finalize_finalize_subsections.induct)
  case (1 mc d par a subs)
  from 1(2) have nf: "\<not> finalized a" and all: "list_all never_finalized subs" by simp_all
  note loop = 1(1) [OF nf all]
  show ?case
    by (simp add: nf loop Let_def split: parent.splits option.splits)
next
  case (2 mc d cls seen tmp)
  show ?case by simp
next
  case (3 mc d cls seen sub rest tmp)
  from 3(3) have s: "never_finalized sub" and r: "list_all never_finalized rest" by simp_all
  let ?sub' = "finalized_tree mc (d + 1) sub"
  show ?case
  proof (cases "mc (classification (attrs ?sub')) cls")
    case None
    then have f: "finalize mc (d + 1) (ParentSection cls) sub
                    = Inr (False, ?sub', ParentSection cls)"
      by (simp add: 3(1) [OF s])
    from None have c: "raise_classification mc cls ?sub' = cls"
      by (simp add: raise_classification_def)
    from 3(2) [OF f refl refl refl refl r] f c show ?thesis by (simp add: Let_def)
  next
    case (Some m)
    then have f: "finalize mc (d + 1) (ParentSection cls) sub
                    = Inr (True, ?sub', ParentSection m)"
      by (simp add: 3(1) [OF s])
    from Some have c: "raise_classification mc cls ?sub' = m"
      by (simp add: raise_classification_def)
    from 3(2) [OF f refl refl refl refl r] f c show ?thesis by (simp add: Let_def)
  qed
qed

lemma finalize_sections_finalized_tree:
  "list_all never_finalized secs \<Longrightarrow>
     finalize_sections mc secs = Inr (map (\<lambda>s. (finalized_tree mc 0 s, True)) secs)"
  by (induction secs) (simp_all add: finalize_finalized_tree(1))

lemma kept_sections: "map fst (filter snd (map (\<lambda>s. (f s, True)) secs)) = map f secs"
  by (induction secs) simp_all

lemma count_sections_finalized_tree:
  "count_sections (finalized_tree mc d s) = count_sections s"
proof (induction mc d s rule: finalized_tree.induct)
  case (1 mc d a subs)
  have "(\<Sum>x\<leftarrow>subs. count_sections (finalized_tree mc (d + 1) x))
          = sum_list (map count_sections subs)"
    using 1 by (induction subs) simp_all
  then show ?case by (simp add: comp_def)
qed

lemma heuristic_score_attrs:
  "heuristic (attrs s') = heuristic (attrs s) \<Longrightarrow> heuristic_score s' = heuristic_score s"
  by (simp add: heuristic_score_def)

lemma heuristic_score_finalized_tree:
  "map heuristic_score (preorder (finalized_tree mc d s)) = map heuristic_score (preorder s)"
proof (induction mc d s rule: finalized_tree.induct)
  case (1 mc d a subs)
  have tail: "map heuristic_score (concat (map preorder (map (finalized_tree mc (d + 1)) subs)))
          = map heuristic_score (concat (map preorder subs))"
    using 1 by (induction subs) simp_all
  have head: "heuristic_score (finalized_tree mc d (ResultSection a subs))
          = heuristic_score (ResultSection a subs)"
    by (rule heuristic_score_attrs) simp
  have "preorder (finalized_tree mc d (ResultSection a subs))
          = finalized_tree mc d (ResultSection a subs)
            # concat (map preorder (map (finalized_tree mc (d + 1)) subs))"
    by simp
  then show ?case using head tail by (simp del: finalized_tree.simps)
qed

text \<open>
  C1. When a section is finalized, a child whose own \<^verbatim>\<open>finalize\<close> returns false (its
  classification cannot be merged with the parent's) is left out of the section's
  children; for a root with two children of which one fails the merge, the result keeps
  one child and its score leaves out the heuristic score of the other.

  The code does not do this. In the example the child \<^verbatim>\<open>bad\<close> returns false from its own
  \<^verbatim>\<open>finalize\<close> and leaves the parent's classification alone, yet the finalized root still
  has both children, the result has the three records \<^verbatim>\<open>root\<close>, \<^verbatim>\<open>good\<close>, \<^verbatim>\<open>bad\<close>, and the
  score 8 counts the 3 of \<^verbatim>\<open>bad\<close>.
\<close>

theorem finalize_keeps_failed_child:
  "(case finalize example_max_classification 1 (ParentSection ''U'') example_bad_child of
      Inl _ \<Rightarrow> False
    | Inr (keep, _, par') \<Rightarrow> keep = False \<and> par' = ParentSection ''U'')
   \<and> (case Result_finalize example_max_classification (\<lambda>t. t)
              (Result_init (Some [example_bad_tree])) of
        Inl _ \<Rightarrow> False
      | Inr (r, out) \<Rightarrow>
          map (\<lambda>s. map (\<lambda>c. title_text (attrs c)) (subsections s)) (sections r)
            = [[''good'', ''bad'']]
          \<and> map rec_title_text (out_sections out) = [''root'', ''good'', ''bad'']
          \<and> map record_score (out_sections out) = [0, 5, 3]
          \<and> out_score out = 8)"
  by (simp add: Result_finalize_def Result_init_def example_bad_tree_def example_bad_child_def
        example_section_def ResultSection_init_def add_subsection_def
        example_max_classification_def example_level_def example_heuristics
        append_section_def get_heuristic_primitives_def record_score_def
        Let_def)

section \<open>Extracted and supplementary files\<close>

text \<open>
  Whenever \<^verbatim>\<open>add_extracted\<close> returns, the file it has hashed is at \<open>path\<close> after the call:
  a call that returns has not moved the file at \<open>path\<close> anywhere else.
\<close>

lemma add_extracted_leaves_path:
  assumes "add_extracted sha256_of fs t path name description cls = Inr (fs', t')"
  shows "\<exists>content. files fs' (resolve fs' path) = Some content
                  \<and> file_sha256 (last (extracted t')) = sha256_of content"
  using assms
  by (auto simp: add_extracted_def Let_def get_sha256_for_file_def
           split: option.splits sum.splits if_splits)

text \<open>
  A working directory that does not exist: \<^verbatim>\<open>shutil.move\<close> raises and nothing is
  appended.
\<close>

lemma add_extracted_missing_working_directory:
  "add_extracted example_sha256 (example_fs_other\<lparr> dirs := {''/tmp/out'', ''/srv''} \<rparr>)
     example_task ''/tmp/out/a.bin'' ''a.bin'' ''payload'' None = Inl FileNotFoundError"
  by (simp add: add_extracted_def example_fs_other_def example_task_def os_path_join_def
        os_path_dirname_def os_path_exists_def shutil_move_def resolve_def is_dir_def
        blocked_by_file_def Let_def)

text \<open>
  C2. \<^verbatim>\<open>add_extracted(path, name, description, classification)\<close>, and likewise
  \<^verbatim>\<open>add_supplementary\<close>, moves the file at \<open>path\<close> into the working directory under
  \<open>name\<close> unless it is there already, and appends a record with the name, the hash of the
  file, the description and the classification.

  The code does not do this: it moves \<open>name\<close>, read against the current directory, and
  then hashes \<open>path\<close>. With the file at \<^verbatim>\<open>/tmp/out/a.bin\<close> and nothing named \<^verbatim>\<open>a.bin\<close> in the
  current directory the call raises and appends nothing. With another file named
  \<^verbatim>\<open>a.bin\<close> in the current directory, that file is moved into the working directory, the
  file at \<open>path\<close> stays where it was, and the record carries the hash of the file at
  \<open>path\<close>, which is not the file now in the working directory.
\<close>

theorem add_extracted_moves_name_not_path:
  "add_extracted example_sha256 example_fs example_task ''/tmp/out/a.bin'' ''a.bin'' ''payload'' None
     = Inl FileNotFoundError
   \<and> add_supplementary example_sha256 example_fs example_task ''/tmp/out/a.bin'' ''a.bin''
       ''payload'' None = Inl FileNotFoundError
   \<and> (case add_extracted example_sha256 example_fs_other example_task ''/tmp/out/a.bin''
             ''a.bin'' ''payload'' None of
        Inl _ \<Rightarrow> False
      | Inr (fs, t) \<Rightarrow>
          files fs ''/tmp/out/a.bin'' = Some ''DATA''
          \<and> files fs ''/srv/a.bin'' = None
          \<and> files fs ''/work/a.bin'' = Some ''OTHER''
          \<and> extracted t = [\<lparr> file_name = ''a.bin'', file_sha256 = example_sha256 ''DATA'',
                               file_description = ''payload'', file_classification = None \<rparr>])"
  by (simp add: add_extracted_def add_supplementary_def example_fs_def
        example_fs_other_def example_task_def os_path_join_def os_path_dirname_def
        os_path_exists_def os_makedirs_def shutil_move_def get_sha256_for_file_def resolve_def
        is_dir_def blocked_by_file_def under_def Let_def)

section \<open>Flattening and the aggregate score\<close>

lemma append_section_record:
  "append_section unflatten s flat = flat @ [section_record_of unflatten s]"
  by (simp add: append_section_def section_record_of_def get_heuristic_primitives_def
        split: option.splits)

lemma flatten_preorder_aux:
  "flatten_sections unflatten s root flat =
     (if subsections s = [] then flat @ [section_record_of unflatten s]
      else (if root then flat @ [section_record_of unflatten s] else flat)
           @ map (section_record_of unflatten) (concat (map preorder (subsections s))))"
  "flatten_subsections unflatten subs flat =
     flat @ map (section_record_of unflatten) (concat (map preorder subs))"
proof (induction unflatten s root flat and unflatten subs flat
       rule: flatten_sections_flatten_subsections.induct)
  case (1 unfl a subs root flat)
  then show ?case by (simp add: append_section_record)
next
  case (2 unfl flat)
  show ?case by simp
next
  case (3 unfl sub rest flat)
  obtain a subs where s: "sub = ResultSection a subs" by (cases sub)
  show ?case
  proof (cases "subs = []")
    case True
    with 3 s show ?thesis by (simp add: append_section_record)
  next
    case False
    with 3 s show ?thesis by (simp add: append_section_record)
  qed
qed

lemma flatten_sections_preorder:
  "flatten_sections unflatten s True flat = flat @ map (section_record_of unflatten) (preorder s)"
  by (cases s) (simp add: flatten_preorder_aux(2) append_section_record)

lemma fold_flatten_sections:
  "fold (\<lambda>s acc. flatten_sections unflatten s True acc) secs flat
   = flat @ map (section_record_of unflatten) (concat (map preorder secs))"
  by (induction secs arbitrary: flat) (simp_all add: flatten_sections_preorder)

lemma fold_record_score:
  "fold (\<lambda>entry acc. case rec_heuristic entry of None \<Rightarrow> acc | Some h \<Rightarrow> acc + p_score h)
     flat sc
   = sc + sum_list (map record_score flat)"
  by (induction flat arbitrary: sc) (simp_all add: record_score_def split: option.splits)

lemma record_score_section_record_of:
  "record_score (section_record_of unflatten s) = heuristic_score s"
  by (simp add: record_score_def section_record_of_def heuristic_score_def split: option.splits)

lemma length_preorder: "length (preorder s) = count_sections s"
proof (induction s rule: preorder.induct)
  case (1 a subs)
  have "length (concat (map preorder subs)) = sum_list (map count_sections subs)"
    using 1 by (induction subs) simp_all
  then show ?case by simp
qed

lemma length_concat_preorder:
  "length (concat (map preorder secs)) = sum_list (map count_sections secs)"
  by (induction secs) (simp_all add: length_preorder)

lemma count_sections_finalized_trees:
  "sum_list (map count_sections (map (finalized_tree mc d) secs))
   = sum_list (map count_sections secs)"
  by (induction secs) (simp_all add: count_sections_finalized_tree)

lemma heuristic_score_finalized_trees:
  "map heuristic_score (concat (map preorder (map (finalized_tree mc d) secs)))
   = map heuristic_score (concat (map preorder secs))"
  by (induction secs) (simp_all add: heuristic_score_finalized_tree)

lemma record_scores_of_sections:
  "map record_score (map (section_record_of unflatten) secs) = map heuristic_score secs"
  by (induction secs) (simp_all add: record_score_section_record_of)

text \<open>
  C3. For a \<^verbatim>\<open>Result\<close> that has not been finalized, over section trees that have not been
  finalized, \<^verbatim>\<open>Result.finalize\<close> returns. The trees it retains are the trees it was given,
  each finalized at depth 0 with all its sections. The records it returns are the
  sections of the retained trees in pre-order (a section, then each child with its
  descendants, children in list order), each record made of its section's title, body,
  body format, classification, depth, heuristic and tags; there is one record for each
  section of the trees given. The score it returns is the sum of the heuristic scores of
  the sections given, a section without a heuristic counting 0, which is the sum over the
  records.
\<close>

theorem Result_finalize_preorder:
  assumes "flattened_sections r = []" and "result_score r = 0"
    and "list_all never_finalized (sections r)"
  shows "\<exists>r' out. Result_finalize max_classification unflatten r = Inr (r', out)
           \<and> sections r' = map (finalized_tree max_classification 0) (sections r)
           \<and> out_sections out
               = map (section_record_of unflatten) (concat (map preorder (sections r')))
           \<and> length (out_sections out) = sum_list (map count_sections (sections r))
           \<and> out_score out
               = sum_list (map heuristic_score (concat (map preorder (sections r))))
           \<and> out_score out = sum_list (map record_score (out_sections out))"
proof -
  define kept where "kept = map (finalized_tree max_classification 0) (sections r)"
  define flat where "flat = map (section_record_of unflatten) (concat (map preorder kept))"
  define total where "total = sum_list (map record_score flat)"
  define r' where
    "r' = r\<lparr> flattened_sections := flat, result_score := total, sections := kept \<rparr>"
  define out :: "'a result_dict" where "out = \<lparr> out_score = total, out_sections = flat \<rparr>"
  have "Result_finalize max_classification unflatten r = Inr (r', out)"
    by (simp add: Result_finalize_def finalize_sections_finalized_tree [OF assms(3)]
          kept_sections Let_def fold_flatten_sections fold_record_score assms(1,2)
          kept_def flat_def total_def r'_def out_def comp_def)
  moreover have "sections r' = kept" "out_sections out = flat" "out_score out = total"
    by (simp_all add: r'_def out_def)
  moreover have "length flat = sum_list (map count_sections (sections r))"
  proof -
    have "length flat = sum_list (map count_sections kept)"
      unfolding flat_def by (simp add: length_concat_preorder)
    also have "\<dots> = sum_list (map count_sections (sections r))"
      unfolding kept_def by (rule count_sections_finalized_trees)
    finally show ?thesis .
  qed
  moreover have "total = sum_list (map heuristic_score (concat (map preorder (sections r))))"
    unfolding total_def flat_def kept_def record_scores_of_sections
      heuristic_score_finalized_trees ..
  ultimately show ?thesis
    unfolding flat_def total_def
    by (intro exI [of _ r'] exI [of _ out] conjI) (simp_all only: kept_def)
qed

theorem Result_finalize_preorder_witness:
  "flattened_sections (Result_init (Some [example_tree]) :: (string \<times> string list) list Result) = []
   \<and> result_score (Result_init (Some [example_tree]) :: (string \<times> string list) list Result) = 0
   \<and> list_all never_finalized
        (sections (Result_init (Some [example_tree]) :: (string \<times> string list) list Result))
   \<and> map (\<lambda>s. title_text (attrs s)) (preorder example_tree)
        = [''root'', ''child1'', ''child2'', ''grandchild'']
   \<and> map heuristic_score (preorder example_tree) = [10, 5, 0, 3]
   \<and> (\<exists>r' out.
         Result_finalize example_max_classification (\<lambda>t. t) (Result_init (Some [example_tree]))
           = Inr (r', out)
         \<and> sections r' = [finalized_tree example_max_classification 0 example_tree]
         \<and> out_sections out = map (section_record_of (\<lambda>t. t)) (concat (map preorder (sections r')))
         \<and> map rec_title_text (out_sections out) = [''root'', ''child1'', ''child2'', ''grandchild'']
         \<and> map rec_depth (out_sections out) = [0, 1, 1, 2]
         \<and> map record_score (out_sections out) = [10, 5, 0, 3]
         \<and> out_score out = 18)"
proof -
  let ?r = "Result_init (Some [example_tree]) :: (string \<times> string list) list Result"
  have i: "flattened_sections ?r = []" "result_score ?r = 0"
    "list_all never_finalized (sections ?r)"
    by (simp_all add: Result_init_def example_tree_def example_section_def
          ResultSection_init_def add_subsection_def)
  have e: "map (\<lambda>s. title_text (attrs s)) (preorder example_tree)
             = [''root'', ''child1'', ''child2'', ''grandchild'']"
    "map heuristic_score (preorder example_tree) = [10, 5, 0, 3]"
    by (simp_all add: example_tree_def example_section_def ResultSection_init_def
          add_subsection_def heuristic_score_def example_heuristics)
  from Result_finalize_preorder [OF i, of example_max_classification "\<lambda>t. t"]
  obtain r' out where
    f: "Result_finalize example_max_classification (\<lambda>t. t) ?r = Inr (r', out)"
    and k: "sections r' = map (finalized_tree example_max_classification 0) (sections ?r)"
    and p: "out_sections out = map (section_record_of (\<lambda>t. t)) (concat (map preorder (sections r')))"
    by blast
  from k have k': "sections r' = [finalized_tree example_max_classification 0 example_tree]"
    by (simp add: Result_init_def)
  have "(case Result_finalize example_max_classification (\<lambda>t. t) ?r of
           Inl _ \<Rightarrow> False
         | Inr (r', out) \<Rightarrow>
             map rec_title_text (out_sections out)
               = [''root'', ''child1'', ''child2'', ''grandchild'']
             \<and> map rec_depth (out_sections out) = [0, 1, 1, 2]
             \<and> map record_score (out_sections out) = [10, 5, 0, 3]
             \<and> out_score out = 18)"
    by (simp add: Result_finalize_def Result_init_def example_tree_def
        example_section_def ResultSection_init_def add_subsection_def
        example_max_classification_def example_level_def example_heuristics
        append_section_def get_heuristic_primitives_def record_score_def
        Let_def)
  with f have
    "map rec_title_text (out_sections out) = [''root'', ''child1'', ''child2'', ''grandchild'']
     \<and> map rec_depth (out_sections out) = [0, 1, 1, 2]
     \<and> map record_score (out_sections out) = [10, 5, 0, 3]
     \<and> out_score out = 18"
    by simp
  with i e f k' p show ?thesis
    by (intro conjI exI [of _ r'] exI [of _ out]) simp_all
qed

section \<open>Heuristic scores\<close>

lemma signature_delta_rate: "signature_delta d s n = signature_rate d s * n"
  by (simp add: signature_delta_def signature_rate_def split: option.splits)

lemma score_signatures_sum:
  "score_signatures d m sc = sc + (\<Sum>(k, c)\<leftarrow>m. signature_rate d k * c)"
  by (induction d m sc rule: score_signatures.induct) (simp_all add: signature_delta_rate)


text \<open>
  C4. For a heuristic id of the manifest, \<^verbatim>\<open>Heuristic(heur_id)\<close> with no signature, no
  signatures mapping and frequency 1 (whatever the attack ids) has the base score of the
  manifest entry as its score; for an id that is not in the manifest the constructor
  raises \<^verbatim>\<open>InvalidHeuristicException\<close>, whatever the other arguments.
\<close>

theorem Heuristic_init_base_score:
  "(HEUR_LIST hid = Some d \<longrightarrow>
      (\<exists>h. Heuristic_init HEUR_LIST attack_map hid attack_id None attack_ids_arg None 1 = Inr h
           \<and> score h = def_score d))
   \<and> (HEUR_LIST hid = None \<longrightarrow>
        Heuristic_init HEUR_LIST attack_map hid attack_id signature attack_ids_arg signatures_arg freq
          = Inl (InvalidHeuristicException (NotInManifest hid)))"
  by (simp add: Heuristic_init_def Let_def)

theorem Heuristic_init_base_score_witness:
  "example_HEUR_LIST 2 = Some \<lparr> def_score = 5, def_attack_id = [], def_signature_score_map = [] \<rparr>
   \<and> (\<exists>h. Heuristic_init example_HEUR_LIST example_attack_map 2 None None None None 1 = Inr h
          \<and> score h = 5)
   \<and> example_HEUR_LIST 7 = None
   \<and> Heuristic_init example_HEUR_LIST example_attack_map 7 None None None None 1
        = Inl (InvalidHeuristicException (NotInManifest 7))"
  using Heuristic_init_base_score [where HEUR_LIST = example_HEUR_LIST and hid = 2
          and d = "\<lparr> def_score = 5, def_attack_id = [], def_signature_score_map = [] \<rparr>"
          and attack_map = example_attack_map and attack_id = None and attack_ids_arg = None]
        Heuristic_init_base_score [where HEUR_LIST = example_HEUR_LIST and hid = 7
          and attack_map = example_attack_map and attack_id = None and signature = None
          and attack_ids_arg = None and signatures_arg = None and freq = 1]
  by (simp add: example_HEUR_LIST_def)



text \<open>
  C6, as the code has it. \<^verbatim>\<open>add_signature_id\<close> adds to the score the amount the signature
  is worth (its override, or the base score where it has none) times the frequency, and
  \<^verbatim>\<open>increment_frequency\<close> adds the base score times the frequency. So the score after the
  call is not less than the score before it when the frequency and the amount multiplied
  with it are not negative. Nothing in the code keeps them from being negative: the
  score goes down with frequency -1 on a heuristic of base score 5, and with the default
  frequency 1 on a heuristic of base score -1000.
\<close>

theorem score_monotone_nonnegative:
  "score (add_signature_id h s n) = score h + signature_rate (heur_definition h) s * n
   \<and> score (increment_frequency h n) = score h + def_score (heur_definition h) * n
   \<and> (0 \<le> n \<and> 0 \<le> signature_rate (heur_definition h) s \<longrightarrow>
        score h \<le> score (add_signature_id h s n))
   \<and> (0 \<le> n \<and> 0 \<le> def_score (heur_definition h) \<longrightarrow>
        score h \<le> score (increment_frequency h n))"
  by (simp add: add_signature_id_def increment_frequency_def signature_delta_rate)

theorem score_monotone_nonnegative_witness:
  "\<exists>h. example_heuristic 1 = Some h
      \<and> (0::int) \<le> 2 \<and> 0 \<le> def_score (heur_definition h)
      \<and> 0 \<le> signature_rate (heur_definition h) ''sig_a''
      \<and> score h = 10
      \<and> score (add_signature_id h ''sig_a'' 2) = 210
      \<and> score (increment_frequency h 2) = 30
      \<and> score h \<le> score (add_signature_id h ''sig_a'' 2)
      \<and> score h \<le> score (increment_frequency h 2)"
proof -
  obtain h where h: "example_heuristic 1 = Some h"
    and hd: "heur_definition h = \<lparr> def_score = 10, def_attack_id = [],
               def_signature_score_map = [(''sig_a'', 100)] \<rparr>"
    and sc: "score h = 10"
    by (simp add: example_heuristics)
  have pre: "(0::int) \<le> 2" "0 \<le> def_score (heur_definition h)"
    "0 \<le> signature_rate (heur_definition h) ''sig_a''"
    and rate: "signature_rate (heur_definition h) ''sig_a'' = 100"
    "def_score (heur_definition h) = 10"
    by (simp_all add: hd signature_rate_def)
  from score_monotone_nonnegative [of h "''sig_a''" 2] pre rate h sc show ?thesis by simp
qed

theorem score_decreases_counterexample:
  "(case example_heuristic 2 of
      None \<Rightarrow> False
    | Some h \<Rightarrow> score (increment_frequency h (- 1)) < score h
               \<and> score (add_signature_id h ''sig_a'' (- 1)) < score h)
   \<and> (case example_heuristic 4 of
        None \<Rightarrow> False
      | Some h \<Rightarrow> score (increment_frequency h 1) < score h
                 \<and> score (add_signature_id h ''sig_a'' 1) < score h)"
  by (simp add: example_heuristics increment_frequency_def add_signature_id_def
        signature_delta_def)

text \<open>
  C10, as the code has it. When the constructor is given a signature that is not the empty
  string, or a non-empty signatures mapping, the frequency argument plays no part: the
  frequency of the heuristic is 0, its score is the sum over its signatures of each one's
  amount times its count, and any other frequency argument gives the same heuristic. The
  empty string is a signature argument too, but \<^verbatim>\<open>if signature:\<close> is false for it: with
  \<^verbatim>\<open>signature=''\<close> and no mapping the frequency argument is used
  (\<^verbatim>\<open>Heuristic(1, signature='', frequency=5)\<close> has frequency 5 and score 50).
\<close>

theorem Heuristic_init_frequency_ignored:
  assumes "HEUR_LIST hid = Some d"
    and "truthy signature \<or> (\<exists>m. signatures_arg = Some m \<and> m \<noteq> [])"
  shows "\<exists>h. Heuristic_init HEUR_LIST attack_map hid attack_id signature attack_ids_arg
                signatures_arg freq = Inr h
            \<and> frequency h = 0
            \<and> score h = (\<Sum>(k, c)\<leftarrow>signatures h. signature_rate d k * c)
            \<and> Heuristic_init HEUR_LIST attack_map hid attack_id signature attack_ids_arg
                signatures_arg freq' = Inr h"
proof -
  define sigs0 where "sigs0 = (case signatures_arg of None \<Rightarrow> [] | Some m \<Rightarrow> m)"
  define sigs1 where "sigs1 = (case signature of None \<Rightarrow> sigs0
       | Some s \<Rightarrow> if s \<noteq> [] then dict_increment sigs0 s 1 else sigs0)"
  have ne: "sigs1 \<noteq> []"
  proof (cases "truthy signature")
    case True
    then obtain s where "signature = Some s" "s \<noteq> []" by (cases signature) auto
    then show ?thesis by (simp add: sigs1_def dict_increment_not_Nil)
  next
    case False
    with assms(2) obtain m where m: "signatures_arg = Some m" "m \<noteq> []" by blast
    from False have "signature = None \<or> signature = Some []" by (cases signature) auto
    with m show ?thesis by (auto simp: sigs1_def sigs0_def)
  qed
  then show ?thesis
    using assms(1)
    by (simp add: Heuristic_init_def Let_def sigs0_def [symmetric] sigs1_def [symmetric]
          score_signatures_sum)
qed

theorem Heuristic_init_frequency_ignored_witness:
  "example_HEUR_LIST 1
     = Some \<lparr> def_score = 10, def_attack_id = [], def_signature_score_map = [(''sig_a'', 100)] \<rparr>
   \<and> truthy (Some ''sig_a'')
   \<and> (\<exists>h. Heuristic_init example_HEUR_LIST example_attack_map 1 None (Some ''sig_a'') None None 7
             = Inr h
          \<and> frequency h = 0 \<and> signatures h = [(''sig_a'', 1)] \<and> score h = 100
          \<and> Heuristic_init example_HEUR_LIST example_attack_map 1 None (Some ''sig_a'') None None 1
              = Inr h)"
proof -
  let ?d = "\<lparr> def_score = 10, def_attack_id = [], def_signature_score_map = [(''sig_a'', 100)] \<rparr>"
  have l: "example_HEUR_LIST 1 = Some ?d" by (simp add: example_HEUR_LIST_def)
  have t: "truthy (Some ''sig_a'') \<or> (\<exists>m. (None :: (string \<times> int) list option) = Some m \<and> m \<noteq> [])"
    by simp
  from Heuristic_init_frequency_ignored [where HEUR_LIST = example_HEUR_LIST and hid = 1
         and d = "?d" and signature = "Some ''sig_a''" and signatures_arg = None
         and attack_map = example_attack_map and attack_id = None and attack_ids_arg = None
         and freq = 7 and freq' = 1, OF l t]
  obtain h where
    h: "Heuristic_init example_HEUR_LIST example_attack_map 1 None (Some ''sig_a'') None None 7
          = Inr h"
    and f: "frequency h = 0"
    and s: "score h = (\<Sum>(k, c)\<leftarrow>signatures h. signature_rate ?d k * c)"
    and i: "Heuristic_init example_HEUR_LIST example_attack_map 1 None (Some ''sig_a'') None None 1
          = Inr h"
    by blast
  from h have sg: "signatures h = [(''sig_a'', 1)]"
    by (auto simp: Heuristic_init_def l dict_increment_Nil)
  with s have "score h = 100" by (simp add: signature_rate_def)
  with l h f i sg show ?thesis by simp
qed

theorem empty_signature_counterexample:
  "(case Heuristic_init example_HEUR_LIST example_attack_map 1 None (Some []) None None 5 of
      Inl _ \<Rightarrow> False
    | Inr h \<Rightarrow> frequency h = 5 \<and> signatures h = [] \<and> score h = 50)"
  by (simp add: Heuristic_init_def example_HEUR_LIST_def)

text \<open>With the empty string for signature and no mapping, the frequency argument is used.\<close>

lemma Heuristic_init_empty_signature:
  assumes "HEUR_LIST hid = Some d"
  shows "\<exists>h. Heuristic_init HEUR_LIST attack_map hid attack_id (Some []) attack_ids_arg None freq
                = Inr h
            \<and> frequency h = freq \<and> score h = def_score d * freq"
  using assms by (simp add: Heuristic_init_def Let_def)

section \<open>The heuristic of a section\<close>

text \<open>
  C7. \<^verbatim>\<open>set_heuristic\<close> on a section that has a heuristic raises
  \<^verbatim>\<open>InvalidHeuristicException\<close> with the message of the second assignment; so a second
  \<^verbatim>\<open>set_heuristic\<close> after one that returned raises it, and two calls in sequence never
  both return: the sequence always ends in \<^verbatim>\<open>InvalidHeuristicException\<close>. A call that
  returns is one on a section without a heuristic, so no call replaces a heuristic.
\<close>

theorem set_heuristic_twice_fails:
  "(heuristic (attrs s) = Some current \<longrightarrow>
      set_heuristic HEUR_LIST attack_map s hid attack_id signature
        = Inl (InvalidHeuristicException (SetTwice (heur_id current) hid)))
   \<and> (set_heuristic HEUR_LIST attack_map s hid attack_id signature = Inr s1 \<longrightarrow>
        set_heuristic HEUR_LIST attack_map s1 hid2 attack_id2 signature2
          = Inl (InvalidHeuristicException (SetTwice hid hid2)))
   \<and> (\<exists>e. (case set_heuristic HEUR_LIST attack_map s hid attack_id signature of
              Inl e1 \<Rightarrow> Inl e1
            | Inr s' \<Rightarrow> set_heuristic HEUR_LIST attack_map s' hid2 attack_id2 signature2)
           = Inl (InvalidHeuristicException e))"
proof (intro conjI impI)
  show "set_heuristic HEUR_LIST attack_map s hid attack_id signature
        = Inl (InvalidHeuristicException (SetTwice (heur_id current) hid))"
    if "heuristic (attrs s) = Some current"
    using that by (simp add: set_heuristic_def)
  have second: "set_heuristic HEUR_LIST attack_map s' hid2 attack_id2 signature2
          = Inl (InvalidHeuristicException (SetTwice hid hid2))"
    if "set_heuristic HEUR_LIST attack_map s hid attack_id signature = Inr s'" for s'
    using that
    by (auto simp: set_heuristic_def Heuristic_init_def Let_def
             split: option.splits sum.splits)
  show "set_heuristic HEUR_LIST attack_map s1 hid2 attack_id2 signature2
          = Inl (InvalidHeuristicException (SetTwice hid hid2))"
    if "set_heuristic HEUR_LIST attack_map s hid attack_id signature = Inr s1"
    by (rule second [OF that])
  show "\<exists>e. (case set_heuristic HEUR_LIST attack_map s hid attack_id signature of
              Inl e1 \<Rightarrow> Inl e1
            | Inr s' \<Rightarrow> set_heuristic HEUR_LIST attack_map s' hid2 attack_id2 signature2)
           = Inl (InvalidHeuristicException e)"
  proof (cases "set_heuristic HEUR_LIST attack_map s hid attack_id signature")
    case (Inl e1)
    then have "\<exists>e. e1 = InvalidHeuristicException e"
      by (auto simp: set_heuristic_def Heuristic_init_def Let_def
               split: option.splits sum.splits)
    with Inl show ?thesis by auto
  next
    case (Inr s')
    with second [OF Inr] show ?thesis by simp
  qed
qed

theorem set_heuristic_twice_fails_witness:
  "(\<exists>s1 current. set_heuristic example_HEUR_LIST example_attack_map
            (example_section ''s'' ''U'' None) 1 None None = Inr s1
        \<and> heuristic (attrs s1) = Some current \<and> heur_id current = 1
        \<and> set_heuristic example_HEUR_LIST example_attack_map s1 2 None None
            = Inl (InvalidHeuristicException (SetTwice 1 2)))"
proof -
  obtain s1 where s1: "set_heuristic example_HEUR_LIST example_attack_map
            (example_section ''s'' ''U'' None) 1 None None = Inr s1"
    by (simp add: set_heuristic_def example_section_def ResultSection_init_def
          Heuristic_init_def example_HEUR_LIST_def)
  then obtain current where c: "heuristic (attrs s1) = Some current" "heur_id current = 1"
    by (auto simp: set_heuristic_def example_section_def ResultSection_init_def
          Heuristic_init_def example_HEUR_LIST_def)
  from set_heuristic_twice_fails [of s1 current example_HEUR_LIST example_attack_map 2 None None]
    c s1
  show ?thesis by auto
qed

section \<open>Finalizing twice\<close>

text \<open>
  C8. \<^verbatim>\<open>finalize\<close> on a section that has been finalized raises
  \<^verbatim>\<open>ResultAggregationException\<close>; the section a \<^verbatim>\<open>finalize\<close> that returned leaves behind
  is finalized, so a second \<^verbatim>\<open>finalize\<close> on it raises, whatever its arguments.
\<close>

theorem finalize_twice_fails:
  "(finalized (attrs s) \<longrightarrow>
      finalize max_classification d par s = Inl ResultAggregationException)
   \<and> (finalize max_classification d par s = Inr (keep, s1, par1) \<longrightarrow>
        finalize max_classification' d' par' s1 = Inl ResultAggregationException)"
proof (cases s)
  case (ResultSection a subs)
  have fin: "finalized (attrs s1)"
    if "finalize max_classification d par s = Inr (keep, s1, par1)"
    using that unfolding ResultSection
    by (auto simp: Let_def split: if_splits sum.splits prod.splits parent.splits option.splits)
  have raise: "finalize m e q t = Inl ResultAggregationException" if "finalized (attrs t)"
    for m e q t
    using that by (cases t) simp
  show ?thesis
    using fin raise by blast
qed

theorem finalize_twice_fails_witness:
  "\<exists>keep s1 par1.
      finalize example_max_classification 0 NoParent example_tree = Inr (keep, s1, par1)
      \<and> finalized (attrs s1)
      \<and> finalize example_max_classification 0 NoParent s1 = Inl ResultAggregationException"
proof -
  obtain keep s1 par1 where
    f: "finalize example_max_classification 0 NoParent example_tree = Inr (keep, s1, par1)"
    and fin: "finalized (attrs s1)"
    by (simp add: example_tree_def example_section_def ResultSection_init_def
          add_subsection_def example_max_classification_def example_level_def Let_def)
  from finalize_twice_fails [of s1 example_max_classification 0 NoParent]
       finalize_twice_fails [of example_tree example_max_classification 0 NoParent keep s1 par1
          example_max_classification 0 NoParent]
       f fin
  show ?thesis by blast
qed

section \<open>Tags\<close>

lemma add_tag_tags:
  assumes "tag_text decode val = Some v"
  shows "add_tag decode s tag_type val =
     Inr (ResultSection ((attrs s)\<lparr> tags :=
            (case dict_get (tags (attrs s)) tag_type of
               None \<Rightarrow> dict_set (tags (attrs s)) tag_type [v]
             | Some vs \<Rightarrow> if v \<in> set vs then tags (attrs s)
                          else dict_set (tags (attrs s)) tag_type (vs @ [v])) \<rparr>)
          (subsections s))"
proof (cases "dict_get (tags (attrs s)) tag_type")
  case None
  then show ?thesis
    by (simp add: add_tag_def assms dict_get_set_same dict_set_set)
next
  case (Some vs)
  then show ?thesis
    by (simp add: add_tag_def assms)
qed

lemma add_tag_values:
  assumes "tag_text decode val = Some v" and "add_tag decode s tag_type val = Inr s1"
  shows "tag_values s1 tag_type =
           (if v \<in> set (tag_values s tag_type) then tag_values s tag_type
            else tag_values s tag_type @ [v])"
proof (cases "dict_get (tags (attrs s)) tag_type")
  case None
  with assms(2) show ?thesis
    unfolding add_tag_tags [OF assms(1)]
    by (auto simp: tag_values_def dict_get_set_same)
next
  case (Some vs)
  with assms(2) show ?thesis
    unfolding add_tag_tags [OF assms(1)]
    by (auto simp: tag_values_def dict_get_set_same)
qed

lemma add_tag_fixpoint:
  assumes "tag_text decode val = Some v" and "add_tag decode s tag_type val = Inr s1"
  shows "add_tag decode s1 tag_type val = Inr s1"
proof -
  have v: "v \<in> set (tag_values s1 tag_type)"
    by (simp add: add_tag_values [OF assms])
  then obtain vs where vs: "dict_get (tags (attrs s1)) tag_type = Some vs" and "v \<in> set vs"
    by (cases "dict_get (tags (attrs s1)) tag_type") (simp_all add: tag_values_def)
  then show ?thesis
    unfolding add_tag_tags [OF assms(1), of s1 tag_type]
    by (cases s1) simp
qed

lemma add_tag_first_use:
  assumes "tag_text decode val = Some v" and "add_tag decode s tag_type val = Inr s1"
    and "dict_get (tags (attrs s)) tag_type = None"
  shows "tags (attrs s1) = tags (attrs s) @ [(tag_type, [v])]"
proof -
  have "add_tag decode s tag_type val =
          Inr (ResultSection ((attrs s)\<lparr> tags := dict_set (tags (attrs s)) tag_type [v] \<rparr>)
                 (subsections s))"
    by (simp add: add_tag_tags [OF assms(1)] assms(3))
  with assms(2) have "s1 = ResultSection ((attrs s)\<lparr> tags := dict_set (tags (attrs s)) tag_type [v] \<rparr>)
                 (subsections s)"
    by simp
  then show ?thesis by (simp add: dict_set_new [OF assms(3)])
qed

lemma add_tag_once:
  assumes "tag_text decode val = Some v" and "add_tag decode s tag_type val = Inr s1"
    and "count_list (tag_values s tag_type) v \<le> 1"
  shows "count_list (tag_values s1 tag_type) v = 1"
proof (cases "v \<in> set (tag_values s tag_type)")
  case True
  then have "count_list (tag_values s tag_type) v \<noteq> 0"
    by (simp add: count_list_0_iff)
  with assms(3) have "count_list (tag_values s tag_type) v = 1" by linarith
  with True show ?thesis by (simp add: add_tag_values [OF assms(1,2)])
next
  case False
  then have "count_list (tag_values s tag_type) v = 0"
    by (simp add: count_list_0_iff)
  with False show ?thesis by (simp add: add_tag_values [OF assms(1,2)])
qed

text \<open>
  C9, as the code has it. For every section, tag type and value (bytes that decode, or
  text), \<^verbatim>\<open>add_tag\<close> returns, and a second \<^verbatim>\<open>add_tag\<close> of the same pair changes nothing.
  The values under the type are the old ones in their order, with the value added at the
  end if it was not among them. The value is there exactly once afterwards provided it
  was there at most once before: \<^verbatim>\<open>add_tag\<close> removes nothing, so a value that the \<open>tags\<close>
  argument of the constructor repeats stays repeated. A type that had no entry gets one,
  at the end of the dictionary, holding the value alone.
\<close>

theorem add_tag_idempotent:
  assumes "tag_text decode val = Some v"
  shows "\<exists>s1. add_tag decode s tag_type val = Inr s1
           \<and> add_tag decode s1 tag_type val = Inr s1
           \<and> tag_values s1 tag_type =
               (if v \<in> set (tag_values s tag_type) then tag_values s tag_type
                else tag_values s tag_type @ [v])
           \<and> (count_list (tag_values s tag_type) v \<le> 1 \<longrightarrow>
                count_list (tag_values s1 tag_type) v = 1)
           \<and> (dict_get (tags (attrs s)) tag_type = None \<longrightarrow>
                tags (attrs s1) = tags (attrs s) @ [(tag_type, [v])])"
proof -
  obtain s1 where s1: "add_tag decode s tag_type val = Inr s1"
    using add_tag_tags [OF assms, of s tag_type] by blast
  show ?thesis
  proof (intro exI conjI impI)
    show "add_tag decode s tag_type val = Inr s1" by (rule s1)
    show "add_tag decode s1 tag_type val = Inr s1" by (rule add_tag_fixpoint [OF assms s1])
    show "tag_values s1 tag_type =
               (if v \<in> set (tag_values s tag_type) then tag_values s tag_type
                else tag_values s tag_type @ [v])"
      by (rule add_tag_values [OF assms s1])
    show "count_list (tag_values s1 tag_type) v = 1"
      if "count_list (tag_values s tag_type) v \<le> 1"
      by (rule add_tag_once [OF assms s1 that])
    show "tags (attrs s1) = tags (attrs s) @ [(tag_type, [v])]"
      if "dict_get (tags (attrs s)) tag_type = None"
      by (rule add_tag_first_use [OF assms s1 that])
  qed
qed

theorem add_tag_idempotent_witness:
  "tag_text Some (Str ''1.2.3.4'') = Some ''1.2.3.4''
   \<and> dict_get (tags (attrs (example_section ''s'' ''U'' None))) ''ip'' = None
   \<and> count_list (tag_values (example_section ''s'' ''U'' None) ''ip'') ''1.2.3.4'' \<le> 1
   \<and> (\<exists>s1. add_tag Some (example_section ''s'' ''U'' None) ''ip'' (Str ''1.2.3.4'') = Inr s1
          \<and> add_tag Some s1 ''ip'' (Str ''1.2.3.4'') = Inr s1
          \<and> count_list (tag_values s1 ''ip'') ''1.2.3.4'' = 1
          \<and> tags (attrs s1) = [(''ip'', [''1.2.3.4''])])"
proof -
  let ?s = "example_section ''s'' ''U'' None"
  have t: "tag_text Some (Str ''1.2.3.4'') = Some ''1.2.3.4''"
    by (simp add: tag_text_def)
  have n: "dict_get (tags (attrs ?s)) ''ip'' = None"
    and c: "count_list (tag_values ?s ''ip'') ''1.2.3.4'' \<le> 1"
    and e: "tags (attrs ?s) = []"
    by (simp_all add: example_section_def ResultSection_init_def tag_values_def)
  from add_tag_idempotent [OF t, of ?s "''ip''"] n c obtain s1 where
    "add_tag Some ?s ''ip'' (Str ''1.2.3.4'') = Inr s1"
    "add_tag Some s1 ''ip'' (Str ''1.2.3.4'') = Inr s1"
    "count_list (tag_values s1 ''ip'') ''1.2.3.4'' = 1"
    "tags (attrs s1) = tags (attrs ?s) @ [(''ip'', [''1.2.3.4''])]"
    by blast
  with t n c e show ?thesis by simp
qed

theorem add_tag_duplicates_counterexample:
  "(case add_tag Some example_dup_section ''ip'' (Str ''1.2.3.4'') of
      Inl _ \<Rightarrow> False
    | Inr s1 \<Rightarrow>
        (case add_tag Some s1 ''ip'' (Str ''1.2.3.4'') of
           Inl _ \<Rightarrow> False
         | Inr s2 \<Rightarrow> count_list (tag_values s2 ''ip'') ''1.2.3.4'' = 2))"
  by (simp add: add_tag_def tag_text_def example_dup_section_def ResultSection_init_def
        tag_values_def)

end
